theory Spec2Isabelle
  imports Complex_Main "HOL-Library.Sublist"
begin

section \<open>The sales ingestion pipeline of \<open>src/lib/unified-scraper.ts\<close>\<close>

text \<open>
  A shallow embedding of the scraper: the listing classifier, the player-name filter, year
  inference, URL-keyed persistence, the market summary and the orchestrator
  \<open>scrapeAndStorePlayer\<close>.

  Conventions of the model.
  \<^item> A JavaScript string is a \<open>string\<close> of 8-bit characters; case conversion and the
    character classes of the regular expressions are the ASCII ones (with U+00A0 as the only
    non-ASCII white space).
  \<^item> A JavaScript \<open>number\<close> holding a price is a \<open>real\<close> (exact arithmetic); a year or a
    count is an \<open>int\<close> or a \<open>nat\<close>; a \<open>Date\<close> is its epoch time in milliseconds, an \<open>int\<close>,
    and the ISO text stored in the \<open>sale_date\<close> column is ordered as that number is.
  \<^item> \<open>null\<close> and \<open>undefined\<close> are \<open>None\<close>; JavaScript truthiness of a number is
    \<open>truthy\<close>: present and not zero.
  \<^item> The table \<open>individual_sales\<close> is the list of its rows in insertion order.
\<close>

subsection \<open>Strings\<close>

definition toLowerChar :: "char \<Rightarrow> char" where
  "toLowerChar c =
     (case map_of (zip ''ABCDEFGHIJKLMNOPQRSTUVWXYZ'' ''abcdefghijklmnopqrstuvwxyz'') c of
        Some l \<Rightarrow> l
      | None \<Rightarrow> c)"

definition toLowerCase :: "string \<Rightarrow> string" where
  "toLowerCase s = map toLowerChar s"

definition isDigit :: "char \<Rightarrow> bool" where
  "isDigit c = (c \<in> set ''0123456789'')"

text \<open>The class \<open>\w\<close> that decides the word boundary \<open>\b\<close>.\<close>

definition isWordChar :: "char \<Rightarrow> bool" where
  "isWordChar c =
     (c \<in> set ''0123456789ABCDEFGHIJKLMNOPQRSTUVWXYZabcdefghijklmnopqrstuvwxyz_'')"

text \<open>
  The class \<open>\s\<close>, also what \<open>trim\<close> strips: tab, line feed, vertical tab, form feed,
  carriage return, space and the no-break space.
\<close>

definition isWhite :: "char \<Rightarrow> bool" where
  "isWhite c =
     (c \<in> set [CHR 0x09, CHR 0x0A, CHR 0x0B, CHR 0x0C, CHR 0x0D, CHR '' '', CHR 0xA0])"

definition trim :: "string \<Rightarrow> string" where
  "trim s = rev (dropWhile isWhite (rev (dropWhile isWhite s)))"

text \<open>\<open>s.includes(sub)\<close>: \<open>sub\<close> occurs in \<open>s\<close> as a contiguous run.\<close>

fun includes_str :: "string \<Rightarrow> string \<Rightarrow> bool" where
  "includes_str [] sub = (sub = [])"
| "includes_str (c # cs) sub = (prefix sub (c # cs) \<or> includes_str cs sub)"

text \<open>
  A regular expression is a matcher tried at one position: it sees the character before the
  position (for \<open>\b\<close>) and the text from the position on, and answers the matched text.
  \<open>regexSearch\<close> is the leftmost match, what \<open>match\<close> and \<open>test\<close> find for a pattern without
  the \<open>g\<close> flag, and the first element of the result for a pattern with it.
\<close>

type_synonym matcher = "char option \<Rightarrow> string \<Rightarrow> string option"

fun regexSearch :: "matcher \<Rightarrow> char option \<Rightarrow> string \<Rightarrow> string option" where
  "regexSearch m prev [] = m prev []"
| "regexSearch m prev (c # cs) =
     (case m prev (c # cs) of Some r \<Rightarrow> Some r | None \<Rightarrow> regexSearch m (Some c) cs)"

definition atBoundaryBefore :: "char option \<Rightarrow> bool" where
  "atBoundaryBefore prev = (case prev of None \<Rightarrow> True | Some p \<Rightarrow> \<not> isWordChar p)"

definition atBoundaryAfter :: "string \<Rightarrow> bool" where
  "atBoundaryAfter rest = (case rest of [] \<Rightarrow> True | c # _ \<Rightarrow> \<not> isWordChar c)"

subsection \<open>Types\<close>

record ParsedSale =
  title :: string
  ebayUrl :: string
  ebayItemId :: string
  salePrice :: real
  saleDate :: int
  saleType :: string
  releaseYear :: "int option"
  currency :: string

record FilteredSale = ParsedSale +
  isBaseAuto :: bool
  isRefractor :: bool
  exclusionReason :: "string option"

definition truthy :: "int option \<Rightarrow> bool" where
  "truthy y = (case y of None \<Rightarrow> False | Some n \<Rightarrow> n \<noteq> 0)"

subsection \<open>Constants\<close>

definition PARALLEL_COLORS :: "string list" where
  "PARALLEL_COLORS =
     [''refractor'', ''shimmer'', ''speckle'', ''mojo'', ''lava'', ''wave'',
      ''sapphire'', ''aqua'', ''sky blue'',
      ''purple'', ''blue'', ''green'', ''gold'', ''orange'', ''red'', ''yellow'', ''pink'',
      ''black'',
      ''atomic'', ''prism'', ''hyper'', ''x-fractor'']"

definition GRADED_INDICATORS :: "string list" where
  "GRADED_INDICATORS =
     [''psa'', ''bgs'', ''sgc'', ''cgc'', ''hga'', ''csg'',
      ''gem mint'', ''gem mt 10'', ''mint 9'', ''perfect 10'', ''pristine'']"

definition LOT_INDICATORS :: "string list" where
  "LOT_INDICATORS =
     [''(2)'', ''(3)'', ''(4)'', ''(5)'', ''(6)'', ''(10)'', ''(20)'',
      ''[2]'', ''[3]'', ''[4]'', ''[5]'', ''[6]'', ''[10]'', ''[20]'',
      ''lot'', ''bundle'', ''set of'', ''collection of'', ''group'',
      ''& '', '' and '', '' + '']"

definition EXCLUDED_PRODUCTS :: "string list" where
  "EXCLUDED_PRODUCTS =
     [''topps chrome'', ''panini'', ''donruss'', ''prizm'', ''contenders'',
      ''leaf'', ''sterling'', ''heritage'', ''finest'',
      ''arizona fall league'', ''fall league'', ''aflac'',
      ''redemption'', ''vip'', ''relic'', ''patch'',
      ''bunt'', ''digital'', ''nft'', ''virtual'',
      ''bowman u'', ''bowman university'',
      ''mega'']"

definition IP_AUTOGRAPH_INDICATORS :: "string list" where
  "IP_AUTOGRAPH_INDICATORS =
     ['' ip '', '' ip auto'', ''in person'', ''in-person'', ''signed in'', ''signed at'',
      ''signed by'', ''hand signed'', ''hand-signed'', ''authentic auto'', ''convention'',
      ''meet and greet'', ''autograph event'', ''signing event'']"

text \<open>
  The patterns of \<open>LOT_QUANTITY_PATTERNS\<close>, all with the \<open>i\<close> flag. In each of them the
  greedy \<open>\d+\<close> is followed by something that is not a digit, so taking every digit is the
  only way to match.
\<close>

text \<open>\<open>/\(x\d+\)/i\<close> and \<open>/\[x\d+\]/i\<close>: the bracket, \<open>x\<close>, digits, the closing bracket.\<close>

definition matchOpenXDigits :: "char \<Rightarrow> char \<Rightarrow> matcher" where
  "matchOpenXDigits opn cls prev s =
     (case s of
        b # x # rest \<Rightarrow>
          (let ds = takeWhile isDigit rest; after = dropWhile isDigit rest
           in if b = opn \<and> toLowerChar x = CHR ''x'' \<and> ds \<noteq> [] \<and> after \<noteq> [] \<and> hd after = cls
              then Some (b # x # ds @ [cls]) else None)
      | _ \<Rightarrow> None)"

text \<open>\<open>/\(\d+x\)/i\<close> and \<open>/\[\d+x\]/i\<close>: the bracket, digits, \<open>x\<close>, the closing bracket.\<close>

definition matchOpenDigitsX :: "char \<Rightarrow> char \<Rightarrow> matcher" where
  "matchOpenDigitsX opn cls prev s =
     (case s of
        b # rest \<Rightarrow>
          (let ds = takeWhile isDigit rest; after = dropWhile isDigit rest
           in (case after of
                 x # c # _ \<Rightarrow>
                   if b = opn \<and> ds \<noteq> [] \<and> toLowerChar x = CHR ''x'' \<and> c = cls
                   then Some (b # ds @ [x, c]) else None
               | _ \<Rightarrow> None))
      | _ \<Rightarrow> None)"

text \<open>\<open>/\bx\d+\b/i\<close>: a standalone \<open>x2\<close>.\<close>

definition matchBareX :: matcher where
  "matchBareX prev s =
     (case s of
        x # rest \<Rightarrow>
          (let ds = takeWhile isDigit rest; after = dropWhile isDigit rest
           in if atBoundaryBefore prev \<and> toLowerChar x = CHR ''x'' \<and> ds \<noteq> [] \<and> atBoundaryAfter after
              then Some (x # ds) else None)
      | _ \<Rightarrow> None)"

text \<open>\<open>/\(\d+\s*cards?\)/i\<close> and \<open>/\[\d+\s*cards?\]/i\<close>: \<open>(2 cards)\<close>, \<open>[3 card]\<close>.\<close>

definition matchOpenCards :: "char \<Rightarrow> char \<Rightarrow> matcher" where
  "matchOpenCards opn cls prev s =
     (case s of
        b # rest \<Rightarrow>
          (let ds = takeWhile isDigit rest;
               ws = takeWhile isWhite (dropWhile isDigit rest);
               r1 = dropWhile isWhite (dropWhile isDigit rest);
               word = take 4 r1;
               r2 = drop 4 r1;
               plural = (if r2 \<noteq> [] \<and> toLowerChar (hd r2) = CHR ''s'' then [hd r2] else []);
               r3 = drop (length plural) r2
           in if b = opn \<and> ds \<noteq> [] \<and> toLowerCase word = ''card'' \<and> r3 \<noteq> [] \<and> hd r3 = cls
              then Some (b # ds @ ws @ word @ plural @ [cls]) else None)
      | _ \<Rightarrow> None)"

definition LOT_QUANTITY_PATTERNS :: "matcher list" where
  "LOT_QUANTITY_PATTERNS =
     [matchOpenXDigits (CHR ''('') (CHR '')''),
      matchOpenXDigits (CHR ''['') (CHR '']''),
      matchOpenDigitsX (CHR ''('') (CHR '')''),
      matchOpenDigitsX (CHR ''['') (CHR '']''),
      matchBareX,
      matchOpenCards (CHR ''('') (CHR '')''),
      matchOpenCards (CHR ''['') (CHR '']'')]"

text \<open>
  \<open>SERIAL_PATTERN = /\/\d{1,4}\b/\<close>: a slash, one to four digits, a word boundary. Five
  digits or more never match at that slash: whatever prefix \<open>\d{1,4}\<close> takes, a digit
  follows it.
\<close>

definition matchSerial :: matcher where
  "matchSerial prev s =
     (case s of
        b # rest \<Rightarrow>
          (let ds = takeWhile isDigit rest; after = dropWhile isDigit rest
           in if b = CHR ''/'' \<and> ds \<noteq> [] \<and> length ds \<le> 4 \<and> atBoundaryAfter after
              then Some (b # ds) else None)
      | _ \<Rightarrow> None)"

definition SERIAL_PATTERN_test :: "string \<Rightarrow> bool" where
  "SERIAL_PATTERN_test s = (regexSearch matchSerial None s \<noteq> None)"

text \<open>\<open>YEAR_PATTERN = /\b(20[1-2][0-9])\b/g\<close>.\<close>

definition matchYear :: matcher where
  "matchYear prev s =
     (case s of
        a # b # c # d # rest \<Rightarrow>
          if atBoundaryBefore prev \<and> a = CHR ''2'' \<and> b = CHR ''0''
             \<and> (c = CHR ''1'' \<or> c = CHR ''2'') \<and> isDigit d \<and> atBoundaryAfter rest
          then Some [a, b, c, d] else None
      | _ \<Rightarrow> None)"

definition digitVal :: "char \<Rightarrow> int" where
  "digitVal c = int (of_char c) - 48"

text \<open>\<open>parseInt(text, 10)\<close> on a run of decimal digits.\<close>

definition parseInt :: "string \<Rightarrow> int" where
  "parseInt ds = foldl (\<lambda>acc c. 10 * acc + digitVal c) 0 ds"

definition extractYear :: "string \<Rightarrow> int option" where
  "extractYear t = (case regexSearch matchYear None t of Some m \<Rightarrow> Some (parseInt m) | None \<Rightarrow> None)"

subsection \<open>The player-name filter\<close>

definition isNameSep :: "char \<Rightarrow> bool" where
  "isNameSep c = (isWhite c \<or> c = CHR ''-'')"

text \<open>
  \<open>s.split(/[\s-]+/)\<close>: the pieces between maximal runs of separators, with an empty piece
  before a leading run and after a trailing one.
\<close>

fun splitName :: "string \<Rightarrow> string list" where
  "splitName [] = [[]]"
| "splitName (c # cs) =
     (if isNameSep c then
        (if cs \<noteq> [] \<and> isNameSep (hd cs) then splitName cs else [] # splitName cs)
      else (case splitName cs of [] \<Rightarrow> [[c]] | t # ts \<Rightarrow> (c # t) # ts))"

definition nameParts :: "string \<Rightarrow> string list" where
  "nameParts playerName = filter (\<lambda>p. length p > 2) (splitName (toLowerCase playerName))"

definition titleContainsPlayerName :: "string \<Rightarrow> string \<Rightarrow> bool" where
  "titleContainsPlayerName t playerName =
     (if list_ex (\<lambda>part. \<not> includes_str (toLowerCase t) part) (nameParts playerName)
      then False
      else length (nameParts playerName) > 0)"

subsection \<open>The classifier\<close>

text \<open>
  The three local variables of \<open>categorizeListingSale\<close>, threaded through its checks. A
  \<open>for\<close> loop that breaks at the first hit is \<open>find\<close> on the list it walks.
\<close>

type_synonym verdict = "bool \<times> bool \<times> string option"

definition checkGraded :: "string \<Rightarrow> verdict \<Rightarrow> verdict" where
  "checkGraded lowerTitle v =
     (case v of (isBase, isRefr, reason) \<Rightarrow>
        (case find (includes_str lowerTitle) GRADED_INDICATORS of
           Some graded \<Rightarrow> (False, isRefr, Some (''Graded card: '' @ graded))
         | None \<Rightarrow> v))"

definition checkLot :: "string \<Rightarrow> verdict \<Rightarrow> verdict" where
  "checkLot lowerTitle v =
     (case v of (isBase, isRefr, reason) \<Rightarrow>
        if isBase then
          (case find (includes_str lowerTitle) LOT_INDICATORS of
             Some lot \<Rightarrow> (False, isRefr, Some (''Lot/bundle: '' @ lot))
           | None \<Rightarrow> v)
        else v)"

definition checkLotQuantity :: "string \<Rightarrow> verdict \<Rightarrow> verdict" where
  "checkLotQuantity rawTitle v =
     (case v of (isBase, isRefr, reason) \<Rightarrow>
        if isBase then
          (case find (\<lambda>pattern. regexSearch pattern None rawTitle \<noteq> None) LOT_QUANTITY_PATTERNS of
             Some pattern \<Rightarrow>
               (False, isRefr, Some (''Lot quantity: '' @ the (regexSearch pattern None rawTitle)))
           | None \<Rightarrow> v)
        else v)"

definition checkProduct :: "string \<Rightarrow> verdict \<Rightarrow> verdict" where
  "checkProduct lowerTitle v =
     (case v of (isBase, isRefr, reason) \<Rightarrow>
        if isBase then
          (case find (includes_str lowerTitle) EXCLUDED_PRODUCTS of
             Some product \<Rightarrow> (False, isRefr, Some (''Wrong product: '' @ product))
           | None \<Rightarrow> v)
        else v)"

definition checkIpAutograph :: "string \<Rightarrow> verdict \<Rightarrow> verdict" where
  "checkIpAutograph lowerTitle v =
     (case v of (isBase, isRefr, reason) \<Rightarrow>
        if isBase then
          (case find (includes_str lowerTitle) IP_AUTOGRAPH_INDICATORS of
             Some ipIndicator \<Rightarrow> (False, False, Some (''IP/aftermarket auto: '' @ trim ipIndicator))
           | None \<Rightarrow> v)
        else v)"

definition checkSerial :: "string \<Rightarrow> string \<Rightarrow> verdict \<Rightarrow> verdict" where
  "checkSerial rawTitle lowerTitle v =
     (case v of (isBase, isRefr, reason) \<Rightarrow>
        if isBase \<and> SERIAL_PATTERN_test rawTitle then
          (False,
           (if includes_str lowerTitle ''/499'' \<and> includes_str lowerTitle ''refractor''
            then True else isRefr),
           Some ''Numbered parallel'')
        else v)"

definition checkColor :: "string \<Rightarrow> verdict \<Rightarrow> verdict" where
  "checkColor lowerTitle v =
     (case v of (isBase, isRefr, reason) \<Rightarrow>
        if isBase then
          (case find (includes_str lowerTitle) PARALLEL_COLORS of
             Some color \<Rightarrow>
               (False,
                (if color = ''refractor'' \<and> includes_str lowerTitle ''/499'' then True else isRefr),
                Some (''Parallel: '' @ color))
           | None \<Rightarrow> v)
        else v)"

definition classify :: "string \<Rightarrow> verdict" where
  "classify rawTitle =
     (let lowerTitle = toLowerCase rawTitle
      in checkColor lowerTitle
          (checkSerial rawTitle lowerTitle
            (checkIpAutograph lowerTitle
              (checkProduct lowerTitle
                (checkLotQuantity rawTitle
                  (checkLot lowerTitle
                    (checkGraded lowerTitle (True, False, None))))))))"

definition categorizeListingSale :: "ParsedSale \<Rightarrow> FilteredSale" where
  "categorizeListingSale sale =
     (case classify (title sale) of (isBase, isRefr, reason) \<Rightarrow>
        \<lparr>title = title sale, ebayUrl = ebayUrl sale, ebayItemId = ebayItemId sale,
         salePrice = salePrice sale, saleDate = saleDate sale, saleType = saleType sale,
         releaseYear = releaseYear sale, currency = currency sale,
         isBaseAuto = isBase, isRefractor = isRefr, exclusionReason = reason\<rparr>)"

subsection \<open>Year inference\<close>

text \<open>
  \<open>yearCounts\<close> is a \<open>Map<number, number>\<close>: an association list in insertion order, where
  \<open>set\<close> overwrites the entry of a key already present and appends a new key.
\<close>

type_synonym yearMap = "(int \<times> nat) list"

fun mapSet :: "int \<Rightarrow> nat \<Rightarrow> yearMap \<Rightarrow> yearMap" where
  "mapSet k v [] = [(k, v)]"
| "mapSet k v (p # ps) = (if fst p = k then (k, v) # ps else p # mapSet k v ps)"

definition mapGetOr0 :: "yearMap \<Rightarrow> int \<Rightarrow> nat" where
  "mapGetOr0 m k = (case map_of m k of None \<Rightarrow> 0 | Some c \<Rightarrow> c)"

text \<open>One of the two counting loops: \<open>flag\<close> is \<open>isBaseAuto\<close> or \<open>isRefractor\<close>.\<close>

fun tallyYears :: "(FilteredSale \<Rightarrow> bool) \<Rightarrow> FilteredSale list \<Rightarrow> yearMap \<Rightarrow> yearMap" where
  "tallyYears flag [] yearCounts = yearCounts"
| "tallyYears flag (sale # rest) yearCounts =
     (if truthy (releaseYear sale) \<and> flag sale
      then tallyYears flag rest
             (mapSet (the (releaseYear sale)) (mapGetOr0 yearCounts (the (releaseYear sale)) + 1)
                yearCounts)
      else tallyYears flag rest yearCounts)"

definition determineFirstBowmanYear :: "FilteredSale list \<Rightarrow> int option" where
  "determineFirstBowmanYear sales =
     (let yearCounts = tallyYears isBaseAuto sales [];
          yearCounts' = (if length yearCounts = 0 then tallyYears isRefractor sales yearCounts
                         else yearCounts)
      in if length yearCounts' = 0 then None
         else (case sort (map fst yearCounts') of [] \<Rightarrow> None | y # _ \<Rightarrow> Some y))"

text \<open>
  The years the specification speaks of: those of the listings that carry a year and have the
  given flag, in listing order.
\<close>

definition yearsOf :: "(FilteredSale \<Rightarrow> bool) \<Rightarrow> FilteredSale list \<Rightarrow> int list" where
  "yearsOf flag sales = map (\<lambda>s. the (releaseYear s)) (filter (\<lambda>s. truthy (releaseYear s) \<and> flag s) sales)"

subsection \<open>The store\<close>

datatype CardType = Base | Refractor

text \<open>
  A row of \<open>individual_sales\<close>. The columns \<open>id\<close> (a fresh random UUID) and \<open>fetched_at\<close> (the
  wall clock at insertion) are left out: nothing in the pipeline reads them.
\<close>

record SaleRow =
  player_name :: string
  normalized_player_name :: string
  ebay_url :: string
  ebay_item_id :: string
  title_col :: string
  sale_price :: real
  sale_date :: int
  sale_type :: string
  release_year :: "int option"
  card_type :: CardType

type_synonym Db = "SaleRow list"

text \<open>
  \<open>new URL(url)\<close> belongs to the platform, so it is a parameter: the parser answers the origin
  and the path name of a URL, or \<open>None\<close> where the constructor throws.
\<close>

type_synonym urlParser = "string \<Rightarrow> (string \<times> string) option"

definition normalizeEbayUrl :: "urlParser \<Rightarrow> string \<Rightarrow> string" where
  "normalizeEbayUrl parseUrl url =
     (case parseUrl url of
        Some (origin, pathname) \<Rightarrow> origin @ pathname
      | None \<Rightarrow> takeWhile (\<lambda>c. c \<noteq> CHR ''?'') url)"

text \<open>
  The parser on the URLs the closed examples use, \<open>https://www.ebay.com/itm/<digits>\<close> with
  or without a query: origin \<open>https://www.ebay.com\<close>, path \<open>/itm/<digits>\<close>. On any other text
  this stand-in answers \<open>None\<close>.
\<close>

definition itemUrlParser :: urlParser where
  "itemUrlParser url =
     (let rest = drop (length ''https://www.ebay.com/itm/'') url;
          ds = takeWhile isDigit rest;
          after = dropWhile isDigit rest
      in if prefix ''https://www.ebay.com/itm/'' url \<and> ds \<noteq> [] \<and> (after = [] \<or> hd after = CHR ''?'')
         then Some (''https://www.ebay.com'', ''/itm/'' @ ds) else None)"

text \<open>
  SQL \<open>text LIKE pattern\<close> as SQLite evaluates it: \<open>%\<close> stands for any run of characters,
  \<open>_\<close> for any one character, and letters compare without regard to ASCII case.
\<close>

fun sqlLike :: "string \<Rightarrow> string \<Rightarrow> bool" where
  "sqlLike [] s = (s = [])"
| "sqlLike (p # ps) [] = (p = CHR ''%'' \<and> sqlLike ps [])"
| "sqlLike (p # ps) (c # cs) =
     (if p = CHR ''%'' then sqlLike ps (c # cs) \<or> sqlLike (p # ps) cs
      else (p = CHR ''_'' \<or> toLowerChar p = toLowerChar c) \<and> sqlLike ps cs)"

text \<open>\<open>WHERE ebay_url = ? OR ebay_url LIKE ?\<close> with the normalized URL and that URL plus \<open>%\<close>.\<close>

definition urlMatches :: "string \<Rightarrow> SaleRow \<Rightarrow> bool" where
  "urlMatches normalizedUrl row =
     (ebay_url row = normalizedUrl \<or> sqlLike (normalizedUrl @ ''%'') (ebay_url row))"

definition saleExists :: "urlParser \<Rightarrow> Db \<Rightarrow> string \<Rightarrow> bool" where
  "saleExists parseUrl db url = list_ex (urlMatches (normalizeEbayUrl parseUrl url)) db"

text \<open>The values bound to the \<open>INSERT\<close> statement.\<close>

definition newRow :: "string \<Rightarrow> string \<Rightarrow> FilteredSale \<Rightarrow> CardType \<Rightarrow> SaleRow" where
  "newRow pname normalizedUrl sale ctype =
     \<lparr>player_name = pname,
      normalized_player_name = trim (toLowerCase pname),
      ebay_url = normalizedUrl,
      ebay_item_id = ebayItemId sale,
      title_col = title sale,
      sale_price = salePrice sale,
      sale_date = saleDate sale,
      sale_type = saleType sale,
      release_year = releaseYear sale,
      card_type = ctype\<rparr>"

text \<open>
  \<open>insertSale\<close> answers \<open>false\<close> for a duplicate and \<open>true\<close> after inserting. The column
  \<open>ebay_url\<close> is declared \<open>UNIQUE\<close>: an \<open>INSERT\<close> of a URL already stored throws, which is the
  \<open>Inl\<close> branch (with the store as it is).
\<close>

definition insertSale :: "urlParser \<Rightarrow> string \<Rightarrow> FilteredSale \<Rightarrow> CardType \<Rightarrow> Db \<Rightarrow> string + (bool \<times> Db)" where
  "insertSale parseUrl pname sale ctype db =
     (let normalizedUrl = normalizeEbayUrl parseUrl (ebayUrl sale)
      in if saleExists parseUrl db normalizedUrl then Inr (False, db)
         else if list_ex (\<lambda>row. ebay_url row = normalizedUrl) db
         then Inl ''UNIQUE constraint failed: individual_sales.ebay_url''
         else Inr (True, db @ [newRow pname normalizedUrl sale ctype]))"

text \<open>
  \<open>getPlayerSalesFromDb\<close> as the pipeline calls it (without \<open>daysBack\<close>). \<open>ORDER BY sale_date
  DESC\<close> is a stable sort, newest first: rows of one date stay in table order, which SQL leaves
  open. The rows are returned as they are stored.
\<close>

definition playerRows :: "Db \<Rightarrow> string \<Rightarrow> int option \<Rightarrow> SaleRow list" where
  "playerRows db pname yr =
     filter (\<lambda>row. normalized_player_name row = trim (toLowerCase pname)
                   \<and> (if truthy yr then release_year row = yr else True)) db"

definition getPlayerSalesFromDb :: "Db \<Rightarrow> string \<Rightarrow> int option \<Rightarrow> nat option \<Rightarrow> SaleRow list" where
  "getPlayerSalesFromDb db pname yr limit =
     (let ordered = sort_key (\<lambda>row. - sale_date row) (playerRows db pname yr)
      in (case limit of
            Some n \<Rightarrow> if n \<noteq> 0 then take n ordered else ordered
          | None \<Rightarrow> ordered))"

definition getPlayerSalesCount :: "Db \<Rightarrow> string \<Rightarrow> int option \<Rightarrow> nat" where
  "getPlayerSalesCount db pname yr = length (playerRows db pname yr)"

subsection \<open>The market summary\<close>

text \<open>\<open>Math.round\<close> rounds to the nearest integer, a half upwards.\<close>

definition mathRound :: "real \<Rightarrow> real" where
  "mathRound x = of_int \<lfloor>x + 1 / 2\<rfloor>"

definition round2 :: "real \<Rightarrow> real" where
  "round2 x = mathRound (x * 100) / 100"

record MarketStats =
  statAverage :: "real option"
  statMedian :: "real option"
  statLastPrice :: "real option"
  statLastDate :: "int option"

definition marketStats :: "SaleRow list \<Rightarrow> MarketStats" where
  "marketStats recentSales =
     (if length recentSales > 0 then
        (let prices = sort (map sale_price recentSales);
             mid = length prices div 2
         in \<lparr>statAverage = Some (round2 (foldl (+) 0 prices / real (length prices))),
             statMedian = Some (if length prices mod 2 \<noteq> 0 then prices ! mid
                                else round2 ((prices ! (mid - 1) + prices ! mid) / 2)),
             statLastPrice = Some (sale_price (hd recentSales)),
             statLastDate = Some (sale_date (hd recentSales))\<rparr>)
      else \<lparr>statAverage = None, statMedian = None, statLastPrice = None, statLastDate = None\<rparr>)"

subsection \<open>The orchestrator\<close>

function showNat :: "nat \<Rightarrow> string" where
  "showNat n = (if n < 10 then [char_of (48 + n)] else showNat (n div 10) @ [char_of (48 + n mod 10)])"
  by pat_completeness auto
termination
  by (relation "measure (\<lambda>n. n)") auto

definition showInt :: "int \<Rightarrow> string" where
  "showInt i = (if i < 0 then CHR ''-'' # showNat (nat (- i)) else showNat (nat i))"

text \<open>
  The comp source is a parameter: for a search query it answers the listings that
  \<open>parseHtmlResponse\<close> extracts from the response, or the message of the error thrown.
\<close>

type_synonym source = "string \<Rightarrow> string + ParsedSale list"

definition searchQuery :: "string \<Rightarrow> int option \<Rightarrow> string" where
  "searchQuery pname targetYear =
     (if truthy targetYear then pname @ '' '' @ showInt (the targetYear) @ '' bowman chrome auto''
      else pname @ '' bowman chrome auto'')"

definition query130PointCards :: "source \<Rightarrow> string \<Rightarrow> int option \<Rightarrow> string + ParsedSale list" where
  "query130PointCards src pname targetYear = src (searchQuery pname targetYear)"

record ScrapeError =
  code :: string
  message :: string

text \<open>\<open>ScrapeResult\<close> without \<open>responseTimeMs\<close>, a reading of the wall clock.\<close>

record ScrapeResult =
  playerName :: string
  normalizedPlayerName :: string
  success :: bool
  totalResultsFromApi :: nat
  baseAutosFiltered :: nat
  refractorsFiltered :: nat
  inferredFirstBowmanYear :: "int option"
  salesInserted :: nat
  salesDuplicate :: nat
  salesTotal :: nat
  cardType :: "CardType option"
  averagePrice :: "real option"
  medianPrice :: "real option"
  lastSalePrice :: "real option"
  lastSaleDate :: "int option"
  sampleSize :: nat
  error :: "ScrapeError option"

text \<open>The three failure results differ in the counts, the year and the error only.\<close>

definition failureResult :: "string \<Rightarrow> nat \<Rightarrow> nat \<Rightarrow> nat \<Rightarrow> int option \<Rightarrow> string \<Rightarrow> string \<Rightarrow> ScrapeResult" where
  "failureResult pname nTotal nBase nRefr yr errCode errMessage =
     \<lparr>playerName = pname, normalizedPlayerName = trim (toLowerCase pname), success = False,
      totalResultsFromApi = nTotal, baseAutosFiltered = nBase, refractorsFiltered = nRefr,
      inferredFirstBowmanYear = yr, salesInserted = 0, salesDuplicate = 0, salesTotal = 0,
      cardType = None, averagePrice = None, medianPrice = None, lastSalePrice = None,
      lastSaleDate = None, sampleSize = 0,
      error = Some \<lparr>code = errCode, message = errMessage\<rparr>\<rparr>"

text \<open>\<open>x || null\<close> and \<open>x || undefined\<close> on a year.\<close>

definition orNull :: "int option \<Rightarrow> int option" where
  "orNull y = (if truthy y then y else None)"

text \<open>Step 4: the listings to store and their card type.\<close>

definition selectSales :: "FilteredSale list \<Rightarrow> FilteredSale list \<Rightarrow> int option \<Rightarrow> FilteredSale list \<times> CardType" where
  "selectSales baseAutos refractors firstYear =
     (if truthy firstYear then
        (let firstYearBaseAutos = filter (\<lambda>s. releaseYear s = firstYear) baseAutos
         in if length firstYearBaseAutos > 0 then (firstYearBaseAutos, Base)
            else (let firstYearRefractors = filter (\<lambda>s. releaseYear s = firstYear) refractors
                  in if length firstYearRefractors > 0 then (firstYearRefractors, Refractor)
                     else ([], Base)))
      else if length baseAutos > 0 then (baseAutos, Base)
      else if length refractors > 0 then (refractors, Refractor)
      else ([], Base))"

text \<open>Steps 2 to 4, which touch neither the source nor the store.\<close>

record Plan =
  planBaseAutos :: "FilteredSale list"
  planRefractors :: "FilteredSale list"
  planFirstYear :: "int option"
  planSalesToStore :: "FilteredSale list"
  planCardType :: CardType

definition planSales :: "string \<Rightarrow> int option \<Rightarrow> ParsedSale list \<Rightarrow> Plan" where
  "planSales pname targetYear rawSales =
     (let categorizedSales = map categorizeListingSale rawSales;
          nameMatchedSales = filter (\<lambda>s. titleContainsPlayerName (title s) pname) categorizedSales;
          baseAutos = filter isBaseAuto nameMatchedSales;
          refractors = filter isRefractor nameMatchedSales;
          firstYear = (if truthy targetYear then targetYear
                       else determineFirstBowmanYear categorizedSales);
          chosen = selectSales baseAutos refractors firstYear
      in \<lparr>planBaseAutos = baseAutos, planRefractors = refractors, planFirstYear = firstYear,
          planSalesToStore = fst chosen, planCardType = snd chosen\<rparr>)"

text \<open>
  Step 5, the loop over \<open>salesToStore\<close> with its two counters. An error of \<open>insertSale\<close> leaves
  the loop with the store as the earlier iterations made it.
\<close>

fun storeSales :: "urlParser \<Rightarrow> string \<Rightarrow> CardType \<Rightarrow> FilteredSale list \<Rightarrow> nat \<Rightarrow> nat \<Rightarrow> Db
    \<Rightarrow> (string \<times> Db) + (nat \<times> nat \<times> Db)" where
  "storeSales parseUrl pname ctype [] inserted duplicates db = Inr (inserted, duplicates, db)"
| "storeSales parseUrl pname ctype (sale # rest) inserted duplicates db =
     (case insertSale parseUrl pname sale ctype db of
        Inl msg \<Rightarrow> Inl (msg, db)
      | Inr (wasInserted, db') \<Rightarrow>
          if wasInserted then storeSales parseUrl pname ctype rest (inserted + 1) duplicates db'
          else storeSales parseUrl pname ctype rest inserted (duplicates + 1) db')"

definition scrapeAndStorePlayer :: "urlParser \<Rightarrow> source \<Rightarrow> string \<Rightarrow> int option \<Rightarrow> Db \<Rightarrow> ScrapeResult \<times> Db" where
  "scrapeAndStorePlayer parseUrl src pname targetYear db =
     (case query130PointCards src pname targetYear of
        Inl msg \<Rightarrow> (failureResult pname 0 0 0 None ''SCRAPE_ERROR'' msg, db)
      | Inr rawSales \<Rightarrow>
          if length rawSales = 0
          then (failureResult pname 0 0 0 (orNull targetYear) ''NO_RESULTS''
                  ''No results returned from API'', db)
          else
            (let plan = planSales pname targetYear rawSales;
                 firstYear = planFirstYear plan
             in if length (planSalesToStore plan) = 0
                then (failureResult pname (length rawSales) (length (planBaseAutos plan))
                        (length (planRefractors plan)) firstYear ''NO_VALID_SALES''
                        (''No base autos or refractors found for ''
                           @ (if truthy firstYear then showInt (the firstYear) else ''any'')
                           @ '' year''), db)
                else
                  (case storeSales parseUrl pname (planCardType plan) (planSalesToStore plan) 0 0 db of
                     Inl (msg, db') \<Rightarrow> (failureResult pname 0 0 0 None ''SCRAPE_ERROR'' msg, db')
                   | Inr (inserted, duplicates, db') \<Rightarrow>
                       (let recentSales =
                              getPlayerSalesFromDb db' (trim (toLowerCase pname)) (orNull firstYear) (Some 5);
                            stats = marketStats recentSales
                        in (\<lparr>playerName = pname,
                             normalizedPlayerName = trim (toLowerCase pname),
                             success = True,
                             totalResultsFromApi = length rawSales,
                             baseAutosFiltered = length (planBaseAutos plan),
                             refractorsFiltered = length (planRefractors plan),
                             inferredFirstBowmanYear = firstYear,
                             salesInserted = inserted,
                             salesDuplicate = duplicates,
                             salesTotal = getPlayerSalesCount db' (trim (toLowerCase pname)) (orNull firstYear),
                             cardType = Some (planCardType plan),
                             averagePrice = statAverage stats,
                             medianPrice = statMedian stats,
                             lastSalePrice = statLastPrice stats,
                             lastSaleDate = statLastDate stats,
                             sampleSize = length recentSales,
                             error = None\<rparr>, db')))))"

subsection \<open>Listings and sources for the closed examples\<close>

text \<open>
  A listing as \<open>parseHtmlResponse\<close> builds it from one row of the response, here the row of
  an auction: the URL is normalized at once, the year is read off the title, and only USD
  rows are kept.
\<close>

definition parsedRow :: "urlParser \<Rightarrow> string \<Rightarrow> string \<Rightarrow> string \<Rightarrow> real \<Rightarrow> int \<Rightarrow> ParsedSale" where
  "parsedRow parseUrl rowTitle rawEbayUrl itemId price soldAt =
     \<lparr>title = rowTitle, ebayUrl = normalizeEbayUrl parseUrl rawEbayUrl, ebayItemId = itemId,
      salePrice = price, saleDate = soldAt, saleType = ''Auction'',
      releaseYear = extractYear rowTitle, currency = ''USD''\<rparr>"

text \<open>A source that answers every query with the same listings.\<close>

definition constSource :: "ParsedSale list \<Rightarrow> source" where
  "constSource listings query = Inr listings"

text \<open>The error code of a result, if it has an error.\<close>

definition errorCode :: "ScrapeResult \<Rightarrow> string option" where
  "errorCode r = map_option code (error r)"

section \<open>Theorems about the classifier\<close>

lemma find_list_ex: "list_ex P xs \<Longrightarrow> \<exists>x. find P xs = Some x \<and> x \<in> set xs \<and> P x"
  by (induction xs) auto

text \<open>Once \<open>isBaseAuto\<close> is false, every later check leaves the verdict alone.\<close>

lemma checkLot_skip: "checkLot lt (False, r, e) = (False, r, e)"
  by (simp add: checkLot_def)

lemma checkLotQuantity_skip: "checkLotQuantity t (False, r, e) = (False, r, e)"
  by (simp add: checkLotQuantity_def)

lemma checkProduct_skip: "checkProduct lt (False, r, e) = (False, r, e)"
  by (simp add: checkProduct_def)

lemma checkIpAutograph_skip: "checkIpAutograph lt (False, r, e) = (False, r, e)"
  by (simp add: checkIpAutograph_def)

lemma checkSerial_skip: "checkSerial t lt (False, r, e) = (False, r, e)"
  by (simp add: checkSerial_def)

lemma checkColor_skip: "checkColor lt (False, r, e) = (False, r, e)"
  by (simp add: checkColor_def)

lemmas check_skips = checkLot_skip checkLotQuantity_skip checkProduct_skip
  checkIpAutograph_skip checkSerial_skip checkColor_skip

text \<open>What each check can make of a listing that is still a base auto.\<close>

lemma checkGraded_cases:
  "checkGraded lt (True, False, None) = (True, False, None)
     \<and> \<not> list_ex (includes_str lt) GRADED_INDICATORS
   \<or> (\<exists>g. find (includes_str lt) GRADED_INDICATORS = Some g
          \<and> checkGraded lt (True, False, None) = (False, False, Some (''Graded card: '' @ g)))"
  by (auto simp: checkGraded_def find_None_iff list_ex_iff split: option.splits)

lemma checkLot_cases:
  "checkLot lt (True, False, None) = (True, False, None)
   \<or> (\<exists>e. checkLot lt (True, False, None) = (False, False, Some e))"
  by (auto simp: checkLot_def split: option.splits)

lemma checkLotQuantity_cases:
  "checkLotQuantity t (True, False, None) = (True, False, None)
   \<or> (\<exists>e. checkLotQuantity t (True, False, None) = (False, False, Some e))"
  by (auto simp: checkLotQuantity_def split: option.splits)

lemma checkProduct_cases:
  "checkProduct lt (True, False, None) = (True, False, None)
   \<or> (\<exists>e. checkProduct lt (True, False, None) = (False, False, Some e))"
  by (auto simp: checkProduct_def split: option.splits)

lemma checkIpAutograph_cases:
  "checkIpAutograph lt (True, False, None) = (True, False, None)
     \<and> \<not> list_ex (includes_str lt) IP_AUTOGRAPH_INDICATORS
   \<or> (\<exists>e. checkIpAutograph lt (True, False, None) = (False, False, Some e))"
  by (auto simp: checkIpAutograph_def find_None_iff list_ex_iff split: option.splits)

lemma checkSerial_cases:
  "checkSerial t lt (True, False, None) = (True, False, None)
   \<or> checkSerial t lt (True, False, None) = (False, False, Some ''Numbered parallel'')
   \<or> checkSerial t lt (True, False, None) = (False, True, Some ''Numbered parallel'')"
  by (auto simp: checkSerial_def)

lemma checkColor_cases:
  "checkColor lt (True, False, None) = (True, False, None)
   \<or> (\<exists>e. checkColor lt (True, False, None) = (False, False, Some e))
   \<or> checkColor lt (True, False, None) = (False, True, Some ''Parallel: refractor'')"
  by (auto simp: checkColor_def split: option.splits)

lemma classify_unfold:
  "classify t =
     checkColor (toLowerCase t) (checkSerial t (toLowerCase t) (checkIpAutograph (toLowerCase t)
       (checkProduct (toLowerCase t) (checkLotQuantity t (checkLot (toLowerCase t)
         (checkGraded (toLowerCase t) (True, False, None)))))))"
  by (simp add: classify_def Let_def)

lemma classify_cases:
  "classify t = (True, False, None)
   \<or> (\<exists>e. classify t = (False, False, Some e))
   \<or> classify t = (False, True, Some ''Numbered parallel'')
   \<or> classify t = (False, True, Some ''Parallel: refractor'')"
  using checkGraded_cases [of "toLowerCase t"] checkLot_cases [of "toLowerCase t"]
    checkLotQuantity_cases [of t] checkProduct_cases [of "toLowerCase t"]
    checkIpAutograph_cases [of "toLowerCase t"] checkSerial_cases [of t "toLowerCase t"]
    checkColor_cases [of "toLowerCase t"]
  unfolding classify_unfold by (elim disjE exE conjE) (simp_all add: check_skips)

lemma classify_graded:
  assumes "find (includes_str (toLowerCase t)) GRADED_INDICATORS = Some g"
  shows "classify t = (False, False, Some (''Graded card: '' @ g))"
  using assms by (simp add: classify_unfold checkGraded_def check_skips)

lemma classify_ip:
  assumes "list_ex (includes_str (toLowerCase t)) IP_AUTOGRAPH_INDICATORS"
  shows "\<exists>e. classify t = (False, False, Some e)"
  using checkGraded_cases [of "toLowerCase t"] checkLot_cases [of "toLowerCase t"]
    checkLotQuantity_cases [of t] checkProduct_cases [of "toLowerCase t"]
    checkIpAutograph_cases [of "toLowerCase t"] assms
  unfolding classify_unfold by (elim disjE exE conjE) (simp_all add: check_skips)

text \<open>
  C1 (as the code has it). Every listing gets exactly one of three verdicts: base (no
  fallback flag, no exclusion reason), fallback (not base, and the exclusion reason that
  took it out of the base set is kept: \<open>Numbered parallel\<close> or \<open>Parallel: refractor\<close>), or
  excluded (neither flag, a reason present). So no listing is left unclassified and no base
  listing carries a reason, but a fallback listing always carries one.
\<close>

theorem categorize_exactly_one_verdict:
  "(isBaseAuto (categorizeListingSale sale) \<and> \<not> isRefractor (categorizeListingSale sale)
      \<and> exclusionReason (categorizeListingSale sale) = None)
   \<or> (isRefractor (categorizeListingSale sale) \<and> \<not> isBaseAuto (categorizeListingSale sale)
      \<and> (exclusionReason (categorizeListingSale sale) = Some ''Numbered parallel''
         \<or> exclusionReason (categorizeListingSale sale) = Some ''Parallel: refractor''))
   \<or> (exclusionReason (categorizeListingSale sale) \<noteq> None
      \<and> \<not> isBaseAuto (categorizeListingSale sale) \<and> \<not> isRefractor (categorizeListingSale sale))"
  using classify_cases [of "title sale"]
  by (elim disjE exE) (simp_all add: categorizeListingSale_def)

theorem categorize_exactly_one_verdict_witness:
  "isBaseAuto (categorizeListingSale
      (parsedRow itemUrlParser ''2023 Player Y Chrome Auto'' ''https://www.ebay.com/itm/1'' ''1'' 40 1))
   \<and> \<not> isRefractor (categorizeListingSale
      (parsedRow itemUrlParser ''2023 Player Y Chrome Auto'' ''https://www.ebay.com/itm/1'' ''1'' 40 1))
   \<and> exclusionReason (categorizeListingSale
      (parsedRow itemUrlParser ''2023 Player Y Chrome Auto'' ''https://www.ebay.com/itm/1'' ''1'' 40 1)) = None"
proof -
  have "isBaseAuto (categorizeListingSale
      (parsedRow itemUrlParser ''2023 Player Y Chrome Auto'' ''https://www.ebay.com/itm/1'' ''1'' 40 1))"
    by code_simp
  then show ?thesis
    using categorize_exactly_one_verdict
      [of "parsedRow itemUrlParser ''2023 Player Y Chrome Auto'' ''https://www.ebay.com/itm/1'' ''1'' 40 1"]
    by blast
qed

text \<open>
  C1 as stated fails: a \<open>/499\<close> refractor is admissible as a fallback and carries the
  exclusion reason \<open>Numbered parallel\<close> at once.
\<close>

theorem fallback_carries_reason_counterexample:
  "isRefractor (categorizeListingSale
      (parsedRow itemUrlParser ''2023 Player Y Chrome Auto Refractor /499''
         ''https://www.ebay.com/itm/1'' ''1'' 40 1))
   \<and> exclusionReason (categorizeListingSale
      (parsedRow itemUrlParser ''2023 Player Y Chrome Auto Refractor /499''
         ''https://www.ebay.com/itm/1'' ''1'' 40 1)) = Some ''Numbered parallel''"
  by code_simp

text \<open>
  C8. A title with an in-person or aftermarket autograph indicator is never a fallback
  variant, whatever else it says: it is excluded, with a reason, and is not a base variant
  either.
\<close>

theorem ip_autograph_never_fallback:
  assumes "list_ex (includes_str (toLowerCase (title sale))) IP_AUTOGRAPH_INDICATORS"
  shows "\<not> isRefractor (categorizeListingSale sale) \<and> \<not> isBaseAuto (categorizeListingSale sale)
         \<and> exclusionReason (categorizeListingSale sale) \<noteq> None"
  using classify_ip [OF assms] by (auto simp: categorizeListingSale_def)

theorem ip_autograph_never_fallback_witness:
  "list_ex (includes_str (toLowerCase ''2023 Player Y Chrome Auto Signed In Person Refractor /499''))
     IP_AUTOGRAPH_INDICATORS
   \<and> includes_str (toLowerCase ''2023 Player Y Chrome Auto Signed In Person Refractor /499'') ''/499''
   \<and> includes_str (toLowerCase ''2023 Player Y Chrome Auto Signed In Person Refractor /499'') ''refractor''
   \<and> \<not> isRefractor (categorizeListingSale
        (parsedRow itemUrlParser ''2023 Player Y Chrome Auto Signed In Person Refractor /499''
           ''https://www.ebay.com/itm/1'' ''1'' 40 1))"
proof -
  have t: "title (parsedRow itemUrlParser ''2023 Player Y Chrome Auto Signed In Person Refractor /499''
           ''https://www.ebay.com/itm/1'' ''1'' 40 1)
           = ''2023 Player Y Chrome Auto Signed In Person Refractor /499''"
    by (simp add: parsedRow_def)
  have h: "list_ex (includes_str (toLowerCase ''2023 Player Y Chrome Auto Signed In Person Refractor /499''))
     IP_AUTOGRAPH_INDICATORS"
    by code_simp
  have a: "includes_str (toLowerCase ''2023 Player Y Chrome Auto Signed In Person Refractor /499'') ''/499''"
    by code_simp
  have b: "includes_str (toLowerCase ''2023 Player Y Chrome Auto Signed In Person Refractor /499'') ''refractor''"
    by code_simp
  show ?thesis
    using ip_autograph_never_fallback
      [of "parsedRow itemUrlParser ''2023 Player Y Chrome Auto Signed In Person Refractor /499''
           ''https://www.ebay.com/itm/1'' ''1'' 40 1"] h a b
    unfolding t by blast
qed

text \<open>
  C9. The graded check comes first: a title with a grading token and a lot indicator (a lot
  word or a lot quantity pattern) is excluded with the reason of the first grading token
  found, and with no other reason.
\<close>

theorem graded_wins_over_lot:
  assumes "list_ex (includes_str (toLowerCase (title sale))) GRADED_INDICATORS"
    and "list_ex (includes_str (toLowerCase (title sale))) LOT_INDICATORS
         \<or> list_ex (\<lambda>pattern. regexSearch pattern None (title sale) \<noteq> None) LOT_QUANTITY_PATTERNS"
  shows "\<exists>graded. find (includes_str (toLowerCase (title sale))) GRADED_INDICATORS = Some graded
           \<and> exclusionReason (categorizeListingSale sale) = Some (''Graded card: '' @ graded)
           \<and> \<not> isBaseAuto (categorizeListingSale sale) \<and> \<not> isRefractor (categorizeListingSale sale)"
proof -
  from find_list_ex [OF assms(1)] obtain g
    where g: "find (includes_str (toLowerCase (title sale))) GRADED_INDICATORS = Some g"
    by blast
  from classify_graded [OF g] show ?thesis
    using g by (simp add: categorizeListingSale_def)
qed

theorem graded_wins_over_lot_witness:
  "list_ex (includes_str (toLowerCase ''2024 Player X Chrome Auto PSA 10 Lot (x2)'')) GRADED_INDICATORS
   \<and> list_ex (includes_str (toLowerCase ''2024 Player X Chrome Auto PSA 10 Lot (x2)'')) LOT_INDICATORS
   \<and> exclusionReason (categorizeListingSale
        (parsedRow itemUrlParser ''2024 Player X Chrome Auto PSA 10 Lot (x2)''
           ''https://www.ebay.com/itm/1'' ''1'' 50 1)) = Some ''Graded card: psa''"
proof -
  have t: "title (parsedRow itemUrlParser ''2024 Player X Chrome Auto PSA 10 Lot (x2)''
           ''https://www.ebay.com/itm/1'' ''1'' 50 1) = ''2024 Player X Chrome Auto PSA 10 Lot (x2)''"
    by (simp add: parsedRow_def)
  have h1: "list_ex (includes_str (toLowerCase ''2024 Player X Chrome Auto PSA 10 Lot (x2)'')) GRADED_INDICATORS"
    by code_simp
  have h2: "list_ex (includes_str (toLowerCase ''2024 Player X Chrome Auto PSA 10 Lot (x2)'')) LOT_INDICATORS"
    by code_simp
  have f: "find (includes_str (toLowerCase ''2024 Player X Chrome Auto PSA 10 Lot (x2)'')) GRADED_INDICATORS
           = Some ''psa''"
    by code_simp
  show ?thesis
    using graded_wins_over_lot
      [of "parsedRow itemUrlParser ''2024 Player X Chrome Auto PSA 10 Lot (x2)''
           ''https://www.ebay.com/itm/1'' ''1'' 50 1"] h1 h2 f
    unfolding t by auto
qed

section \<open>Theorems about year inference\<close>

lemma mapSet_keys: "fst ` set (mapSet k v m) = insert k (fst ` set m)"
  by (induction m) auto

lemma yearsOf_Nil: "yearsOf flag [] = []"
  by (simp add: yearsOf_def)

lemma yearsOf_Cons:
  "yearsOf flag (s # ss) =
     (if truthy (releaseYear s) \<and> flag s then the (releaseYear s) # yearsOf flag ss
      else yearsOf flag ss)"
  by (simp add: yearsOf_def)

text \<open>The keys of the tally are the years counted, whatever their counts.\<close>

lemma tallyYears_keys:
  "fst ` set (tallyYears flag sales m) = fst ` set m \<union> set (yearsOf flag sales)"
proof (induction sales arbitrary: m)
  case Nil
  then show ?case by (simp add: yearsOf_Nil)
next
  case (Cons sale rest)
  show ?case
    by (simp only: tallyYears.simps yearsOf_Cons Cons.IH mapSet_keys split: if_split)
       auto
qed

lemma tallyYears_empty_iff: "tallyYears flag sales [] = [] \<longleftrightarrow> yearsOf flag sales = []"
proof -
  have "tallyYears flag sales [] = [] \<longleftrightarrow> fst ` set (tallyYears flag sales []) = {}"
    by simp
  also have "\<dots> \<longleftrightarrow> yearsOf flag sales = []"
    by (simp add: tallyYears_keys)
  finally show ?thesis .
qed

lemma first_of_sort_is_Min:
  fixes ys :: "int list"
  assumes "ys \<noteq> []"
  shows "(case sort ys of [] \<Rightarrow> None | y # _ \<Rightarrow> Some y) = Some (Min (set ys))"
proof (cases "sort ys")
  case Nil
  then have "set (sort ys) = {}" by simp
  with assms show ?thesis by simp
next
  case (Cons y rest)
  have s: "sorted (y # rest)" using sorted_sort [of ys] Cons by simp
  have m: "set ys = set (y # rest)" using set_sort [of "\<lambda>x. x" ys] Cons by simp
  have "Min (set ys) = y"
  proof (rule Min_eqI)
    show "finite (set ys)" by simp
    show "y \<in> set ys" using m by simp
    fix z assume "z \<in> set ys"
    then show "y \<le> z" using s m by auto
  qed
  then show ?thesis using Cons by simp
qed

lemma earliest_of_tally:
  assumes "tallyYears flag sales [] \<noteq> []"
  shows "(case sort (map fst (tallyYears flag sales [])) of [] \<Rightarrow> None | y # _ \<Rightarrow> Some y)
         = Some (Min (set (yearsOf flag sales)))"
proof -
  have "map fst (tallyYears flag sales []) \<noteq> []" using assms by simp
  from first_of_sort_is_Min [OF this] show ?thesis
    by (simp add: tallyYears_keys)
qed

text \<open>
  C5. \<open>determineFirstBowmanYear\<close> answers the least year among the base listings that carry
  a year, if there is one; otherwise the least year among the fallback listings that carry a
  year; otherwise \<open>null\<close>. The answer is a function of the sets of years: how often a year
  occurs plays no part.
\<close>

theorem determineFirstBowmanYear_is_earliest:
  "determineFirstBowmanYear sales =
     (if yearsOf isBaseAuto sales \<noteq> [] then Some (Min (set (yearsOf isBaseAuto sales)))
      else if yearsOf isRefractor sales \<noteq> [] then Some (Min (set (yearsOf isRefractor sales)))
      else None)"
proof (cases "yearsOf isBaseAuto sales = []")
  case False
  then have ne: "tallyYears isBaseAuto sales [] \<noteq> []" by (simp add: tallyYears_empty_iff)
  show ?thesis
    using False ne earliest_of_tally [OF ne]
    by (simp add: determineFirstBowmanYear_def Let_def)
next
  case True
  then have e: "tallyYears isBaseAuto sales [] = []" by (simp add: tallyYears_empty_iff)
  show ?thesis
  proof (cases "yearsOf isRefractor sales = []")
    case True
    then have "tallyYears isRefractor sales [] = []" by (simp add: tallyYears_empty_iff)
    then show ?thesis
      using \<open>yearsOf isBaseAuto sales = []\<close> True e
      by (simp add: determineFirstBowmanYear_def Let_def)
  next
    case False
    then have ne: "tallyYears isRefractor sales [] \<noteq> []" by (simp add: tallyYears_empty_iff)
    show ?thesis
      using \<open>yearsOf isBaseAuto sales = []\<close> False e ne earliest_of_tally [OF ne]
      by (simp add: determineFirstBowmanYear_def Let_def)
  qed
qed

text \<open>Base years 2023, 2023, 2022, 2024: the answer is 2022, not the most frequent 2023.\<close>

theorem determineFirstBowmanYear_is_earliest_witness:
  "yearsOf isBaseAuto (map categorizeListingSale
      [parsedRow itemUrlParser ''2023 Player Y Chrome Auto'' ''https://www.ebay.com/itm/1'' ''1'' 40 1,
       parsedRow itemUrlParser ''2023 Player Y Chrome Auto'' ''https://www.ebay.com/itm/2'' ''2'' 45 2,
       parsedRow itemUrlParser ''2022 Player Y Chrome Auto'' ''https://www.ebay.com/itm/3'' ''3'' 50 3,
       parsedRow itemUrlParser ''2024 Player Y Chrome Auto'' ''https://www.ebay.com/itm/4'' ''4'' 55 4])
     = [2023, 2023, 2022, 2024]
   \<and> determineFirstBowmanYear (map categorizeListingSale
      [parsedRow itemUrlParser ''2023 Player Y Chrome Auto'' ''https://www.ebay.com/itm/1'' ''1'' 40 1,
       parsedRow itemUrlParser ''2023 Player Y Chrome Auto'' ''https://www.ebay.com/itm/2'' ''2'' 45 2,
       parsedRow itemUrlParser ''2022 Player Y Chrome Auto'' ''https://www.ebay.com/itm/3'' ''3'' 50 3,
       parsedRow itemUrlParser ''2024 Player Y Chrome Auto'' ''https://www.ebay.com/itm/4'' ''4'' 55 4])
     = Some 2022"
proof -
  have y: "yearsOf isBaseAuto (map categorizeListingSale
      [parsedRow itemUrlParser ''2023 Player Y Chrome Auto'' ''https://www.ebay.com/itm/1'' ''1'' 40 1,
       parsedRow itemUrlParser ''2023 Player Y Chrome Auto'' ''https://www.ebay.com/itm/2'' ''2'' 45 2,
       parsedRow itemUrlParser ''2022 Player Y Chrome Auto'' ''https://www.ebay.com/itm/3'' ''3'' 50 3,
       parsedRow itemUrlParser ''2024 Player Y Chrome Auto'' ''https://www.ebay.com/itm/4'' ''4'' 55 4])
     = [2023, 2023, 2022, 2024]"
    by code_simp
  show ?thesis
    using determineFirstBowmanYear_is_earliest [of "map categorizeListingSale
      [parsedRow itemUrlParser ''2023 Player Y Chrome Auto'' ''https://www.ebay.com/itm/1'' ''1'' 40 1,
       parsedRow itemUrlParser ''2023 Player Y Chrome Auto'' ''https://www.ebay.com/itm/2'' ''2'' 45 2,
       parsedRow itemUrlParser ''2022 Player Y Chrome Auto'' ''https://www.ebay.com/itm/3'' ''3'' 50 3,
       parsedRow itemUrlParser ''2024 Player Y Chrome Auto'' ''https://www.ebay.com/itm/4'' ''4'' 55 4]"]
    unfolding y by simp
qed

section \<open>Theorems about the orchestrator\<close>

text \<open>
  C7. When the source answers with listings and none is selected for storing, the run fails
  with \<open>NO_VALID_SALES\<close>, counts no inserted and no duplicate sale, and leaves the store as
  it was.
\<close>

theorem no_valid_sales_leaves_store:
  assumes "query130PointCards src pname targetYear = Inr rawSales"
    and "rawSales \<noteq> []"
    and "planSalesToStore (planSales pname targetYear rawSales) = []"
  shows "snd (scrapeAndStorePlayer parseUrl src pname targetYear db) = db
         \<and> \<not> success (fst (scrapeAndStorePlayer parseUrl src pname targetYear db))
         \<and> errorCode (fst (scrapeAndStorePlayer parseUrl src pname targetYear db)) = Some ''NO_VALID_SALES''
         \<and> salesInserted (fst (scrapeAndStorePlayer parseUrl src pname targetYear db)) = 0
         \<and> salesDuplicate (fst (scrapeAndStorePlayer parseUrl src pname targetYear db)) = 0"
  using assms
  by (simp add: scrapeAndStorePlayer_def Let_def failureResult_def errorCode_def)

text \<open>The graded listing of scenario A: excluded, nothing selected, nothing stored.\<close>

theorem no_valid_sales_leaves_store_witness:
  "exclusionReason (categorizeListingSale
      (parsedRow itemUrlParser ''2024 Player X Chrome Auto PSA 10'' ''https://www.ebay.com/itm/1'' ''1'' 50 1))
     = Some ''Graded card: psa''
   \<and> snd (scrapeAndStorePlayer itemUrlParser
        (constSource [parsedRow itemUrlParser ''2024 Player X Chrome Auto PSA 10''
                        ''https://www.ebay.com/itm/1'' ''1'' 50 1])
        ''Player X'' None []) = []
   \<and> errorCode (fst (scrapeAndStorePlayer itemUrlParser
        (constSource [parsedRow itemUrlParser ''2024 Player X Chrome Auto PSA 10''
                        ''https://www.ebay.com/itm/1'' ''1'' 50 1])
        ''Player X'' None [])) = Some ''NO_VALID_SALES''"
proof -
  have q: "query130PointCards
        (constSource [parsedRow itemUrlParser ''2024 Player X Chrome Auto PSA 10''
                        ''https://www.ebay.com/itm/1'' ''1'' 50 1]) ''Player X'' None
      = Inr [parsedRow itemUrlParser ''2024 Player X Chrome Auto PSA 10''
                        ''https://www.ebay.com/itm/1'' ''1'' 50 1]"
    by (simp add: query130PointCards_def constSource_def)
  have ne: "[parsedRow itemUrlParser ''2024 Player X Chrome Auto PSA 10''
                        ''https://www.ebay.com/itm/1'' ''1'' 50 1] \<noteq> []"
    by simp
  have e: "planSalesToStore (planSales ''Player X'' None
        [parsedRow itemUrlParser ''2024 Player X Chrome Auto PSA 10''
                        ''https://www.ebay.com/itm/1'' ''1'' 50 1]) = []"
    by code_simp
  have g: "exclusionReason (categorizeListingSale
      (parsedRow itemUrlParser ''2024 Player X Chrome Auto PSA 10'' ''https://www.ebay.com/itm/1'' ''1'' 50 1))
     = Some ''Graded card: psa''"
    by code_simp
  show ?thesis
    using no_valid_sales_leaves_store [OF q ne e, where parseUrl = itemUrlParser and db = "[]"] g
    by blast
qed

lemma nameParts_short:
  assumes "list_all (\<lambda>part. length part \<le> 2) (splitName (toLowerCase pname))"
  shows "nameParts pname = []"
  using assms by (auto simp: nameParts_def filter_empty_conv list_all_iff)

lemma selectSales_nothing: "selectSales [] [] yr = ([], Base)"
  by (simp add: selectSales_def)

text \<open>
  C10. A player name whose pieces (split at white space and hyphens) all have at most two
  characters matches no title at all; every fetched listing is then filtered out, and a run
  whose fetch answered with listings fails with \<open>NO_VALID_SALES\<close> and stores nothing.
\<close>

theorem short_name_matches_nothing:
  assumes "list_all (\<lambda>part. length part \<le> 2) (splitName (toLowerCase pname))"
  shows "\<not> titleContainsPlayerName t pname
     \<and> (query130PointCards src pname targetYear = Inr rawSales \<and> rawSales \<noteq> [] \<longrightarrow>
          snd (scrapeAndStorePlayer parseUrl src pname targetYear db) = db
          \<and> errorCode (fst (scrapeAndStorePlayer parseUrl src pname targetYear db)) = Some ''NO_VALID_SALES''
          \<and> salesInserted (fst (scrapeAndStorePlayer parseUrl src pname targetYear db)) = 0
          \<and> salesDuplicate (fst (scrapeAndStorePlayer parseUrl src pname targetYear db)) = 0)"
proof -
  have n: "\<And>t. \<not> titleContainsPlayerName t pname"
    by (simp add: titleContainsPlayerName_def nameParts_short [OF assms])
  have p: "\<And>rawSales. planSalesToStore (planSales pname targetYear rawSales) = []"
    by (simp add: planSales_def Let_def n selectSales_nothing)
  show ?thesis
    using n p
    by (simp add: scrapeAndStorePlayer_def Let_def failureResult_def errorCode_def)
qed

theorem short_name_matches_nothing_witness:
  "list_all (\<lambda>part. length part \<le> 2) (splitName (toLowerCase ''Bo Ek''))
   \<and> \<not> titleContainsPlayerName ''2023 Bo Ek Bowman Chrome Auto'' ''Bo Ek''
   \<and> snd (scrapeAndStorePlayer itemUrlParser
        (constSource [parsedRow itemUrlParser ''2023 Bo Ek Bowman Chrome Auto''
                        ''https://www.ebay.com/itm/1'' ''1'' 50 1])
        ''Bo Ek'' None []) = []
   \<and> errorCode (fst (scrapeAndStorePlayer itemUrlParser
        (constSource [parsedRow itemUrlParser ''2023 Bo Ek Bowman Chrome Auto''
                        ''https://www.ebay.com/itm/1'' ''1'' 50 1])
        ''Bo Ek'' None [])) = Some ''NO_VALID_SALES''"
proof -
  have h: "list_all (\<lambda>part. length part \<le> 2) (splitName (toLowerCase ''Bo Ek''))"
    by code_simp
  have q: "query130PointCards
        (constSource [parsedRow itemUrlParser ''2023 Bo Ek Bowman Chrome Auto''
                        ''https://www.ebay.com/itm/1'' ''1'' 50 1]) ''Bo Ek'' None
      = Inr [parsedRow itemUrlParser ''2023 Bo Ek Bowman Chrome Auto''
                        ''https://www.ebay.com/itm/1'' ''1'' 50 1]"
    by (simp add: query130PointCards_def constSource_def)
  show ?thesis
    using short_name_matches_nothing [OF h, where t = "''2023 Bo Ek Bowman Chrome Auto''"
        and src = "constSource [parsedRow itemUrlParser ''2023 Bo Ek Bowman Chrome Auto''
                        ''https://www.ebay.com/itm/1'' ''1'' 50 1]"
        and targetYear = None and parseUrl = itemUrlParser and db = "[]"
        and rawSales = "[parsedRow itemUrlParser ''2023 Bo Ek Bowman Chrome Auto''
                        ''https://www.ebay.com/itm/1'' ''1'' 50 1]"] h q
    by simp
qed

text \<open>
  C2, the code at a failing input. The player is John Smith; the source answers with a Jane
  Doe listing of 2020 and a John Smith listing of 2022. The Jane Doe listing does not pass
  the name filter, yet \<open>determineFirstBowmanYear\<close> is given the unfiltered list: the year
  inferred is 2020, no John Smith listing has that year, and the run fails.
\<close>

theorem name_mismatch_sets_year:
  "\<not> titleContainsPlayerName ''2020 Jane Doe Bowman Chrome Auto'' ''John Smith''
   \<and> inferredFirstBowmanYear (fst (scrapeAndStorePlayer itemUrlParser
       (constSource
         [parsedRow itemUrlParser ''2020 Jane Doe Bowman Chrome Auto'' ''https://www.ebay.com/itm/1'' ''1'' 30 1,
          parsedRow itemUrlParser ''2022 John Smith Bowman Chrome Auto'' ''https://www.ebay.com/itm/2'' ''2'' 40 2])
       ''John Smith'' None [])) = Some 2020
   \<and> errorCode (fst (scrapeAndStorePlayer itemUrlParser
       (constSource
         [parsedRow itemUrlParser ''2020 Jane Doe Bowman Chrome Auto'' ''https://www.ebay.com/itm/1'' ''1'' 30 1,
          parsedRow itemUrlParser ''2022 John Smith Bowman Chrome Auto'' ''https://www.ebay.com/itm/2'' ''2'' 40 2])
       ''John Smith'' None [])) = Some ''NO_VALID_SALES''"
  by code_simp

section \<open>Theorems about persistence\<close>




















section \<open>Theorems about the market summary\<close>
























end
